theory Spec2Isabelle
  imports Complex_Main "HOL-Library.Finite_Map"
begin

section \<open>IPyHOP-temporal: the temporal layer and the action registry\<close>

text \<open>
  A shallow embedding of \<^verbatim>\<open>ipyhop/temporal/stn.py\<close>, \<^verbatim>\<open>ipyhop/temporal/utils.py\<close>,
  \<^verbatim>\<open>ipyhop/temporal_metadata.py\<close> and \<^verbatim>\<open>ipyhop/actions.py\<close>.

  Conventions of the embedding.
  \<^item> A Python number (an \<^verbatim>\<open>int\<close> or a finite \<^verbatim>\<open>float\<close>) is a rational: arithmetic is
    exact, the rounding of IEEE doubles is not part of the model. \<^verbatim>\<open>math.inf\<close> is the
    extra value \<open>Inf\<close> of the type \<open>dist\<close>.
  \<^item> A raised exception is a value \<open>Inl e\<close> of a sum type; a method that mutates its
    receiver before raising returns the mutated state next to the exception.
  \<^item> Mutable Python objects that a claim may alias (the set and the dictionary held by
    an \<^verbatim>\<open>STN\<close>, and the \<^verbatim>\<open>STN\<close> objects themselves) live in an explicit store and are
    named by their addresses.
\<close>

datatype exn = ValueError | TypeError | OverflowError | AssertionError | AttributeError

subsection \<open>Distances: finite numbers and \<^verbatim>\<open>math.inf\<close>\<close>

datatype dist = Fin rat | Inf

instantiation dist :: linorder
begin

fun less_eq_dist :: "dist \<Rightarrow> dist \<Rightarrow> bool" where
  "less_eq_dist (Fin a) (Fin b) = (a \<le> b)"
| "less_eq_dist (Fin a) Inf = True"
| "less_eq_dist Inf (Fin b) = False"
| "less_eq_dist Inf Inf = True"

fun less_dist :: "dist \<Rightarrow> dist \<Rightarrow> bool" where
  "less_dist (Fin a) (Fin b) = (a < b)"
| "less_dist (Fin a) Inf = True"
| "less_dist Inf (Fin b) = False"
| "less_dist Inf Inf = False"

instance
proof
  fix x y z :: dist
  show "(x < y) = (x \<le> y \<and> \<not> y \<le> x)" by (cases x; cases y) auto
  show "x \<le> x" by (cases x) auto
  show "x \<le> y \<Longrightarrow> y \<le> z \<Longrightarrow> x \<le> z" by (cases x; cases y; cases z) auto
  show "x \<le> y \<Longrightarrow> y \<le> x \<Longrightarrow> x = y" by (cases x; cases y) auto
  show "x \<le> y \<or> y \<le> x" by (cases x; cases y) auto
qed

end

instantiation dist :: comm_monoid_add
begin

definition zero_dist :: dist where "zero_dist = Fin 0"

fun plus_dist :: "dist \<Rightarrow> dist \<Rightarrow> dist" where
  "plus_dist (Fin a) (Fin b) = Fin (a + b)"
| "plus_dist (Fin a) Inf = Inf"
| "plus_dist Inf y = Inf"

instance
proof
  fix x y z :: dist
  show "x + y + z = x + (y + z)" by (cases x; cases y; cases z) auto
  show "x + y = y + x" by (cases x; cases y) auto
  show "0 + x = x" by (cases x) (auto simp: zero_dist_def)
qed

end

subsection \<open>The store\<close>

text \<open>
  An \<^verbatim>\<open>STN\<close> object holds references to a set object (\<^verbatim>\<open>time_points\<close>) and to a
  dictionary object (\<^verbatim>\<open>constraints\<close>); both are mutated in place by the methods and are
  copied by \<^verbatim>\<open>.copy()\<close>. The cached \<^verbatim>\<open>_distance_matrix\<close> and \<^verbatim>\<open>_consistent\<close> are only
  ever replaced as a whole, so they are stored by value (fields \<open>distance_matrix\<close> and
  \<open>consistent_cache\<close>). A dictionary keeps its keys in insertion order: it is an
  association list with distinct keys.
\<close>

type_synonym ref = nat

type_synonym constraint_dict = "((string \<times> string) \<times> (rat \<times> rat)) list"

type_synonym matrix = "(string \<times> string) \<rightharpoonup> dist"

record STN =
  time_points :: ref
  constraints :: ref
  distance_matrix :: "matrix option"
  consistent_cache :: "bool option"
  time_unit :: string

record heap =
  set_objs :: "string set list"
  dict_objs :: "constraint_dict list"
  stn_objs :: "STN list"

definition empty_heap :: heap where
  "empty_heap = \<lparr>set_objs = [], dict_objs = [], stn_objs = []\<rparr>"

text \<open>\<^verbatim>\<open>d[k] = v\<close> on a dictionary: an existing key keeps its place.\<close>

fun dict_set :: "'k \<Rightarrow> 'v \<Rightarrow> ('k \<times> 'v) list \<Rightarrow> ('k \<times> 'v) list" where
  "dict_set k v [] = [(k, v)]"
| "dict_set k v (p # ps) = (if fst p = k then (k, v) # ps else p # dict_set k v ps)"

subsection \<open>\<^verbatim>\<open>STN\<close>: construction and the mutators\<close>

text \<open>\<^verbatim>\<open>STN(time_unit)\<close>: allocates the object, an empty set and an empty dictionary.\<close>

definition STN_new :: "string \<Rightarrow> heap \<Rightarrow> ref \<times> heap" where
  "STN_new tu h =
     (length (stn_objs h),
      \<lparr>set_objs = set_objs h @ [{}],
       dict_objs = dict_objs h @ [[]],
       stn_objs = stn_objs h @
         [\<lparr>time_points = length (set_objs h), constraints = length (dict_objs h),
           distance_matrix = None, consistent_cache = None, time_unit = tu\<rparr>]\<rparr>)"

definition add_time_point :: "ref \<Rightarrow> string \<Rightarrow> heap \<Rightarrow> heap" where
  "add_time_point self point h =
     (let ob = stn_objs h ! self; tp = time_points ob in
      h\<lparr>set_objs := (set_objs h)[tp := insert point (set_objs h ! tp)],
        stn_objs := (stn_objs h)[self := ob\<lparr>consistent_cache := None, distance_matrix := None\<rparr>]\<rparr>)"

definition add_constraint ::
  "ref \<Rightarrow> string \<Rightarrow> string \<Rightarrow> rat \<times> rat \<Rightarrow> heap \<Rightarrow> (exn + unit) \<times> heap" where
  "add_constraint self from_point to_point constraint h =
     (let h1 = add_time_point self from_point h;
          h2 = add_time_point self to_point h1;
          (min_dist, max_dist) = constraint
      in if min_dist > max_dist then (Inl ValueError, h2)
         else
           (let ob = stn_objs h2 ! self; cs = constraints ob in
            (Inr (),
             h2\<lparr>dict_objs := (dict_objs h2)
                   [cs := dict_set (from_point, to_point) (min_dist, max_dist) (dict_objs h2 ! cs)],
                stn_objs := (stn_objs h2)
                   [self := ob\<lparr>consistent_cache := None, distance_matrix := None\<rparr>]\<rparr>)))"

definition add_interval ::
  "ref \<Rightarrow> string \<Rightarrow> string \<Rightarrow> rat \<times> rat \<Rightarrow> heap \<Rightarrow> (exn + unit) \<times> heap" where
  "add_interval self start_point end_point duration h =
     add_constraint self start_point end_point duration h"

subsection \<open>\<^verbatim>\<open>STN\<close>: the distance matrix and the consistency check\<close>

text \<open>
  \<^verbatim>\<open>list(self.time_points)\<close> enumerates a Python set in an order the program does not
  control. The functions that iterate over the time points take that enumeration as
  their argument \<open>points\<close>; the theorems below hold for every enumeration of the set.

  \<^verbatim>\<open>dist\<close>, a \<^verbatim>\<open>defaultdict\<close> of \<^verbatim>\<open>defaultdict\<close>s with default \<^verbatim>\<open>math.inf\<close>, is a total
  function on pairs.
\<close>

fun add_edge ::
  "(string \<times> string) \<times> (rat \<times> rat) \<Rightarrow> (string \<times> string \<Rightarrow> dist) \<Rightarrow> (string \<times> string \<Rightarrow> dist)" where
  "add_edge ((from_pt, to_pt), (min_dist, max_dist)) d =
     (let d1 = (if d (from_pt, to_pt) > Fin max_dist
                   then d((from_pt, to_pt) := Fin max_dist) else d)
      in if d1 (to_pt, from_pt) > Fin (- min_dist)
         then d1((to_pt, from_pt) := Fin (- min_dist)) else d1)"

definition initial_dist :: "string list \<Rightarrow> constraint_dict \<Rightarrow> (string \<times> string \<Rightarrow> dist)" where
  "initial_dist points cs =
     fold add_edge cs (fold (\<lambda>point d. d((point, point) := Fin 0)) points (\<lambda>_. Inf))"

definition relax ::
  "string \<Rightarrow> string \<Rightarrow> string \<Rightarrow> (string \<times> string \<Rightarrow> dist) \<Rightarrow> (string \<times> string \<Rightarrow> dist)" where
  "relax k i j d =
     (if d (i, k) \<noteq> Inf \<and> d (k, j) \<noteq> Inf
      then (if d (i, j) > d (i, k) + d (k, j)
            then d((i, j) := d (i, k) + d (k, j)) else d)
      else d)"

definition floyd_warshall ::
  "string list \<Rightarrow> (string \<times> string \<Rightarrow> dist) \<Rightarrow> (string \<times> string \<Rightarrow> dist)" where
  "floyd_warshall points d =
     fold (\<lambda>k d. fold (\<lambda>i d. fold (\<lambda>j d. relax k i j d) points d) points d) points d"

text \<open>The dictionary that \<^verbatim>\<open>_build_distance_matrix\<close> stores for the enumeration \<open>points\<close>.\<close>

definition closure_matrix :: "string list \<Rightarrow> constraint_dict \<Rightarrow> matrix" where
  "closure_matrix points cs =
     (if length points = 0 then Map.empty
      else (let d = floyd_warshall points (initial_dist points cs)
            in map_of (concat (map (\<lambda>i. map (\<lambda>j. ((i, j), d (i, j))) points) points))))"

definition build_distance_matrix :: "string list \<Rightarrow> ref \<Rightarrow> heap \<Rightarrow> heap" where
  "build_distance_matrix points self h =
     (let ob = stn_objs h ! self in
      h\<lparr>stn_objs := (stn_objs h)
          [self := ob\<lparr>distance_matrix :=
             Some (closure_matrix points (dict_objs h ! constraints ob))\<rparr>]\<rparr>)"

text \<open>The loop of \<^verbatim>\<open>consistent\<close> over the diagonal, with its early \<^verbatim>\<open>return False\<close>.\<close>

fun diagonal_nonneg :: "matrix \<Rightarrow> string list \<Rightarrow> bool" where
  "diagonal_nonneg m [] = True"
| "diagonal_nonneg m (point # points) =
     (if (case m (point, point) of None \<Rightarrow> Fin 0 | Some x \<Rightarrow> x) < Fin 0 then False
      else diagonal_nonneg m points)"

definition consistent :: "string list \<Rightarrow> ref \<Rightarrow> heap \<Rightarrow> bool \<times> heap" where
  "consistent points self h =
     (case consistent_cache (stn_objs h ! self) of
        Some b \<Rightarrow> (b, h)
      | None \<Rightarrow>
         (let h1 = (case distance_matrix (stn_objs h ! self) of
                      None \<Rightarrow> build_distance_matrix points self h
                    | Some _ \<Rightarrow> h);
              m = (case distance_matrix (stn_objs h ! self) of
                      None \<Rightarrow> closure_matrix points (dict_objs h ! constraints (stn_objs h ! self))
                    | Some m0 \<Rightarrow> m0);
              b = diagonal_nonneg m points
          in (b, h1\<lparr>stn_objs := (stn_objs h1)
                      [self := (stn_objs h1 ! self)\<lparr>consistent_cache := Some b\<rparr>]\<rparr>)))"


definition get_intervals :: "ref \<Rightarrow> heap \<Rightarrow> (string \<times> string \<times> rat \<times> rat) list" where
  "get_intervals self h =
     map (\<lambda>((from_pt, to_pt), (min_dur, max_dur)). (from_pt, to_pt, min_dur, max_dur))
       (dict_objs h ! constraints (stn_objs h ! self))"

subsection \<open>\<^verbatim>\<open>STN\<close>: copies\<close>

text \<open>\<^verbatim>\<open>x.time_points = self.time_points.copy()\<close>: a new set object with the same members.\<close>

definition assign_time_points_copy :: "ref \<Rightarrow> ref \<Rightarrow> heap \<Rightarrow> heap" where
  "assign_time_points_copy x self h =
     h\<lparr>set_objs := set_objs h @ [set_objs h ! time_points (stn_objs h ! self)],
       stn_objs := (stn_objs h)[x := (stn_objs h ! x)\<lparr>time_points := length (set_objs h)\<rparr>]\<rparr>"

text \<open>\<^verbatim>\<open>x.constraints = self.constraints.copy()\<close>: a new dictionary with the same items.\<close>

definition assign_constraints_copy :: "ref \<Rightarrow> ref \<Rightarrow> heap \<Rightarrow> heap" where
  "assign_constraints_copy x self h =
     h\<lparr>dict_objs := dict_objs h @ [dict_objs h ! constraints (stn_objs h ! self)],
       stn_objs := (stn_objs h)[x := (stn_objs h ! x)\<lparr>constraints := length (dict_objs h)\<rparr>]\<rparr>"

definition copy :: "ref \<Rightarrow> heap \<Rightarrow> ref \<times> heap" where
  "copy self h =
     (let (new_stn, h1) = STN_new (time_unit (stn_objs h ! self)) h;
          h2 = assign_time_points_copy new_stn self h1;
          h3 = assign_constraints_copy new_stn self h2
      in (new_stn, h3))"

definition check_interval_conflicts ::
  "string list \<Rightarrow> ref \<Rightarrow> string \<Rightarrow> string \<Rightarrow> rat \<Rightarrow> rat \<Rightarrow> heap \<Rightarrow> (exn + bool) \<times> heap" where
  "check_interval_conflicts points self start_point end_point min_duration max_duration h =
     (let (temp_stn, h1) = STN_new (time_unit (stn_objs h ! self)) h;
          h2 = assign_time_points_copy temp_stn self h1;
          h3 = assign_constraints_copy temp_stn self h2;
          (r, h4) = add_constraint temp_stn start_point end_point (min_duration, max_duration) h3
      in case r of
           Inl e \<Rightarrow> (Inl e, h4)
         | Inr _ \<Rightarrow> (let (b, h5) = consistent points temp_stn h4 in (Inr (\<not> b), h5)))"

text \<open>
  A caller's calls that mutate an \<^verbatim>\<open>STN\<close>, and a sequence of them run on the object \<open>c\<close>;
  a call that raises leaves its partial effect and the next call goes on from there.
\<close>

datatype mutation = Add_time_point string | Add_constraint string string "rat \<times> rat"

fun mutate :: "ref \<Rightarrow> mutation \<Rightarrow> heap \<Rightarrow> heap" where
  "mutate c (Add_time_point p) h = add_time_point c p h"
| "mutate c (Add_constraint u v bounds) h = snd (add_constraint c u v bounds h)"

definition mutations :: "ref \<Rightarrow> mutation list \<Rightarrow> heap \<Rightarrow> heap" where
  "mutations c ms h = fold (mutate c) ms h"

text \<open>The references of an allocated \<^verbatim>\<open>STN\<close> object point into the store.\<close>

definition valid_stn :: "heap \<Rightarrow> ref \<Rightarrow> bool" where
  "valid_stn h self =
     (self < length (stn_objs h) \<and>
      time_points (stn_objs h ! self) < length (set_objs h) \<and>
      constraints (stn_objs h ! self) < length (dict_objs h))"

text \<open>What a caller can read of an \<^verbatim>\<open>STN\<close>: its time points and its constraints.\<close>

definition points_of :: "heap \<Rightarrow> ref \<Rightarrow> string set" where
  "points_of h self = set_objs h ! time_points (stn_objs h ! self)"

definition constraints_of :: "heap \<Rightarrow> ref \<Rightarrow> constraint_dict" where
  "constraints_of h self = dict_objs h ! constraints (stn_objs h ! self)"

lemma valid_stn_add_time_point:
  "valid_stn h r \<Longrightarrow> valid_stn (add_time_point self p h) r"
  by (cases "self < length (stn_objs h)"; cases "r = self")
     (auto simp: valid_stn_def add_time_point_def Let_def)

lemma points_of_add_time_point_self:
  "valid_stn h self \<Longrightarrow> points_of (add_time_point self p h) self = insert p (points_of h self)"
  by (simp add: valid_stn_def points_of_def add_time_point_def Let_def)

lemma constraints_of_add_time_point:
  "constraints_of (add_time_point self p h) r = constraints_of h r"
  by (cases "self < length (stn_objs h)"; cases "r = self")
     (auto simp: constraints_of_def add_time_point_def Let_def list_update_beyond)

lemma caches_add_time_point:
  "valid_stn h self \<Longrightarrow>
   consistent_cache (stn_objs (add_time_point self p h) ! self) = None \<and>
   distance_matrix (stn_objs (add_time_point self p h) ! self) = None"
  by (simp add: valid_stn_def add_time_point_def Let_def)

text \<open>
  C6. For time points \<open>u\<close>, \<open>v\<close> and bounds with \<open>min > max\<close>, \<^verbatim>\<open>add_constraint\<close> raises
  \<^verbatim>\<open>ValueError\<close>, and the constraint dictionary of the receiver is what it was: the
  constraint is not recorded.
\<close>

theorem add_constraint_min_gt_max_raises:
  "mn > mx \<Longrightarrow>
   fst (add_constraint self u v (mn, mx) h) = Inl ValueError \<and>
   constraints_of (snd (add_constraint self u v (mn, mx) h)) self = constraints_of h self"
  by (simp add: add_constraint_def Let_def constraints_of_add_time_point)

theorem add_constraint_min_gt_max_raises_witness:
  "(15::rat) > 10 \<and>
   fst (add_constraint 0 ''a'' ''b'' (15, 10) (snd (STN_new ''second'' empty_heap)))
     = Inl ValueError \<and>
   constraints_of
     (snd (add_constraint 0 ''a'' ''b'' (15, 10) (snd (STN_new ''second'' empty_heap)))) 0
     = constraints_of (snd (STN_new ''second'' empty_heap)) 0"
  using add_constraint_min_gt_max_raises
    [of 10 15 0 "''a''" "''b''" "snd (STN_new ''second'' empty_heap)"]
  by simp

text \<open>
  C10. The failure of \<^verbatim>\<open>add_constraint\<close> on \<open>min > max\<close> is not atomic: when the error
  is raised both time points are already members of the receiver's time-point set, and
  the cached distance matrix and the cached verdict have been discarded.
\<close>

theorem add_constraint_failure_not_atomic:
  "valid_stn h self \<Longrightarrow> mn > mx \<Longrightarrow>
   fst (add_constraint self u v (mn, mx) h) = Inl ValueError \<and>
   points_of (snd (add_constraint self u v (mn, mx) h)) self
     = insert v (insert u (points_of h self)) \<and>
   distance_matrix (stn_objs (snd (add_constraint self u v (mn, mx) h)) ! self) = None \<and>
   consistent_cache (stn_objs (snd (add_constraint self u v (mn, mx) h)) ! self) = None"
  by (simp add: add_constraint_def Let_def points_of_add_time_point_self
      valid_stn_add_time_point caches_add_time_point)

theorem add_constraint_failure_not_atomic_witness:
  "valid_stn (snd (STN_new ''second'' empty_heap)) 0 \<and> (15::rat) > 10 \<and>
   fst (add_constraint 0 ''a'' ''b'' (15, 10) (snd (STN_new ''second'' empty_heap)))
     = Inl ValueError \<and>
   points_of (snd (add_constraint 0 ''a'' ''b'' (15, 10) (snd (STN_new ''second'' empty_heap)))) 0
     = {''a'', ''b''} \<and>
   points_of (snd (STN_new ''second'' empty_heap)) 0 = {}"
proof -
  have v: "valid_stn (snd (STN_new ''second'' empty_heap)) 0"
    by (simp add: valid_stn_def STN_new_def empty_heap_def)
  have e: "points_of (snd (STN_new ''second'' empty_heap)) 0 = {}"
    by (simp add: points_of_def STN_new_def empty_heap_def)
  have g: "(15::rat) > 10" by simp
  show ?thesis
    using add_constraint_failure_not_atomic [OF v g, of "''a''" "''b''"] v e by auto
qed



subsection \<open>Frame properties of the \<^verbatim>\<open>STN\<close> methods\<close>

text \<open>
  \<open>unchanged h h' s\<close>: everything the methods of the object \<open>s\<close> read is in \<open>h'\<close> what it
  is in \<open>h\<close>. \<open>separate h c s\<close>: \<open>c\<close> and \<open>s\<close> are two objects that share neither their
  set nor their dictionary.
\<close>

definition unchanged :: "heap \<Rightarrow> heap \<Rightarrow> ref \<Rightarrow> bool" where
  "unchanged h h' s =
     (stn_objs h' ! s = stn_objs h ! s \<and>
      set_objs h' ! time_points (stn_objs h ! s) = set_objs h ! time_points (stn_objs h ! s) \<and>
      dict_objs h' ! constraints (stn_objs h ! s) = dict_objs h ! constraints (stn_objs h ! s))"

definition separate :: "heap \<Rightarrow> ref \<Rightarrow> ref \<Rightarrow> bool" where
  "separate h c s =
     (valid_stn h c \<and> valid_stn h s \<and> c \<noteq> s \<and>
      time_points (stn_objs h ! c) \<noteq> time_points (stn_objs h ! s) \<and>
      constraints (stn_objs h ! c) \<noteq> constraints (stn_objs h ! s))"

lemma unchanged_trans:
  "unchanged h h1 s \<Longrightarrow> unchanged h1 h2 s \<Longrightarrow> unchanged h h2 s"
  unfolding unchanged_def by metis

lemma add_time_point_frame:
  "separate h c s \<Longrightarrow>
   separate (add_time_point c p h) c s \<and> unchanged h (add_time_point c p h) s"
  by (simp add: separate_def unchanged_def valid_stn_def add_time_point_def Let_def)

lemma record_frame:
  "separate h c s \<Longrightarrow>
   separate (h\<lparr>dict_objs := (dict_objs h)[constraints (stn_objs h ! c) := X],
               stn_objs := (stn_objs h)[c := (stn_objs h ! c)\<lparr>consistent_cache := None, distance_matrix := None\<rparr>]\<rparr>) c s \<and>
   unchanged h (h\<lparr>dict_objs := (dict_objs h)[constraints (stn_objs h ! c) := X],
               stn_objs := (stn_objs h)[c := (stn_objs h ! c)\<lparr>consistent_cache := None, distance_matrix := None\<rparr>]\<rparr>) s"
  by (simp add: separate_def unchanged_def valid_stn_def)

lemma add_constraint_frame:
  assumes "separate h c s"
  shows "separate (snd (add_constraint c u v b h)) c s \<and>
         unchanged h (snd (add_constraint c u v b h)) s"
proof -
  obtain mn mx where b: "b = (mn, mx)" by (cases b)
  let ?h1 = "add_time_point c u h"
  let ?h2 = "add_time_point c v ?h1"
  have 1: "separate ?h1 c s" "unchanged h ?h1 s"
    using add_time_point_frame [OF assms, of u] by simp_all
  have 2: "separate ?h2 c s" "unchanged h ?h2 s"
    using add_time_point_frame [OF 1(1), of v] unchanged_trans [OF 1(2)] by simp_all
  show ?thesis
  proof (cases "mn > mx")
    case True
    then show ?thesis using 2 by (simp add: add_constraint_def b Let_def)
  next
    case False
    then show ?thesis using record_frame [OF 2(1)] unchanged_trans [OF 2(2)]
      by (simp add: add_constraint_def b Let_def)
  qed
qed

lemma mutate_frame:
  "separate h c s \<Longrightarrow> separate (mutate c m h) c s \<and> unchanged h (mutate c m h) s"
  by (cases m) (simp_all add: add_time_point_frame add_constraint_frame)

lemma mutations_frame:
  "separate h c s \<Longrightarrow> separate (mutations c ms h) c s \<and> unchanged h (mutations c ms h) s"
  unfolding mutations_def
proof (induction ms arbitrary: h)
  case Nil
  then show ?case by (simp add: unchanged_def)
next
  case (Cons m ms)
  from mutate_frame [OF Cons.prems, of m]
  have a: "separate (mutate c m h) c s" and b: "unchanged h (mutate c m h) s" by simp_all
  from Cons.IH [OF a] unchanged_trans [OF b] show ?case by simp
qed

lemma copy_heap:
  "copy s h =
     (length (stn_objs h),
      \<lparr>set_objs = set_objs h @ [{}, set_objs h ! time_points (stn_objs h ! s)],
       dict_objs = dict_objs h @ [[], dict_objs h ! constraints (stn_objs h ! s)],
       stn_objs = stn_objs h @
         [\<lparr>time_points = Suc (length (set_objs h)), constraints = Suc (length (dict_objs h)),
           distance_matrix = None, consistent_cache = None,
           time_unit = time_unit (stn_objs h ! s)\<rparr>]\<rparr>)" if "valid_stn h s"
  using that
  by (simp add: copy_def STN_new_def assign_time_points_copy_def assign_constraints_copy_def
      valid_stn_def nth_append)

lemma copy_frame:
  assumes "valid_stn h s"
  shows "separate (snd (copy s h)) (fst (copy s h)) s \<and> unchanged h (snd (copy s h)) s"
  using assms unfolding copy_heap [OF assms]
  by (simp add: separate_def unchanged_def valid_stn_def nth_append)


lemma unchanged_points_of: "unchanged h h' s \<Longrightarrow> points_of h' s = points_of h s"
  by (simp add: unchanged_def points_of_def)

lemma unchanged_get_intervals: "unchanged h h' s \<Longrightarrow> get_intervals s h' = get_intervals s h"
  by (simp add: unchanged_def get_intervals_def)

lemma unchanged_consistent:
  "unchanged h h' s \<Longrightarrow> fst (consistent pts s h') = fst (consistent pts s h)"
  by (simp add: unchanged_def consistent_def Let_def split: option.splits)


definition stn_ab :: heap where
  "stn_ab = snd (add_constraint 0 ''a'' ''b'' (10, 10) (snd (STN_new ''second'' empty_heap)))"

lemma valid_stn_ab: "valid_stn stn_ab 0"
  by (simp add: stn_ab_def valid_stn_def add_constraint_def add_time_point_def STN_new_def
      empty_heap_def Let_def)

text \<open>
  C8. After \<open>c = s.copy()\<close>, any sequence of \<^verbatim>\<open>add_time_point\<close> and \<^verbatim>\<open>add_constraint\<close>
  calls on \<open>c\<close> (failing calls included) leaves the time points of \<open>s\<close>, the list
  returned by \<^verbatim>\<open>s.get_intervals()\<close> and the verdict of \<^verbatim>\<open>s.consistent()\<close> as they were
  before the copy was made.
\<close>

theorem copy_independent:
  assumes "valid_stn h s"
  shows "points_of (mutations (fst (copy s h)) ms (snd (copy s h))) s = points_of h s \<and>
         get_intervals s (mutations (fst (copy s h)) ms (snd (copy s h))) = get_intervals s h \<and>
         fst (consistent pts s (mutations (fst (copy s h)) ms (snd (copy s h))))
           = fst (consistent pts s h)"
proof -
  from copy_frame [OF assms]
  have 1: "separate (snd (copy s h)) (fst (copy s h)) s" and 2: "unchanged h (snd (copy s h)) s"
    by simp_all
  from mutations_frame [OF 1, of ms] unchanged_trans [OF 2]
  have "unchanged h (mutations (fst (copy s h)) ms (snd (copy s h))) s" by simp
  then show ?thesis
    using unchanged_points_of unchanged_get_intervals unchanged_consistent by blast
qed

lemma consistent_frame:
  assumes "separate h c s"
  shows "unchanged h (snd (consistent pts c h)) s"
  using assms
  by (simp add: separate_def unchanged_def valid_stn_def consistent_def Let_def
      build_distance_matrix_def split: option.splits)

lemma check_interval_conflicts_copy:
  "check_interval_conflicts pts s u v mn mx h =
     (case add_constraint (fst (copy s h)) u v (mn, mx) (snd (copy s h)) of
        (Inl e, h4) \<Rightarrow> (Inl e, h4)
      | (Inr _, h4) \<Rightarrow>
          (Inr (\<not> fst (consistent pts (fst (copy s h)) h4)),
           snd (consistent pts (fst (copy s h)) h4)))"
  by (simp add: check_interval_conflicts_def copy_def STN_new_def Let_def
      split: prod.splits sum.splits)

lemma add_constraint_ok:
  "mn \<le> mx \<Longrightarrow> fst (add_constraint c u v (mn, mx) h) = Inr ()"
  by (simp add: add_constraint_def Let_def)

text \<open>
  C7. For \<open>min \<le> max\<close>, \<^verbatim>\<open>check_interval_conflicts\<close> returns the negation of what
  \<^verbatim>\<open>consistent()\<close> answers on a copy of the network to which the constraint has been
  added, and the receiver keeps its time points, its constraints and its verdict.
\<close>

theorem check_interval_conflicts_pure:
  assumes "valid_stn h s" and "mn \<le> mx"
  shows "fst (check_interval_conflicts pts s u v mn mx h) =
           Inr (\<not> fst (consistent pts (fst (copy s h))
                  (snd (add_constraint (fst (copy s h)) u v (mn, mx) (snd (copy s h)))))) \<and>
         points_of (snd (check_interval_conflicts pts s u v mn mx h)) s = points_of h s \<and>
         get_intervals s (snd (check_interval_conflicts pts s u v mn mx h)) = get_intervals s h \<and>
         fst (consistent pts' s (snd (check_interval_conflicts pts s u v mn mx h)))
           = fst (consistent pts' s h)"
proof -
  let ?c = "fst (copy s h)"
  obtain r h4 where ac: "add_constraint ?c u v (mn, mx) (snd (copy s h)) = (r, h4)"
    by (cases "add_constraint ?c u v (mn, mx) (snd (copy s h))")
  have r: "r = Inr ()"
    using add_constraint_ok [OF assms(2), of ?c u v "snd (copy s h)"] ac by simp
  let ?h4 = "snd (add_constraint ?c u v (mn, mx) (snd (copy s h)))"
  let ?h5 = "snd (consistent pts ?c ?h4)"
  have h4: "?h4 = h4" using ac by simp
  have res: "check_interval_conflicts pts s u v mn mx h = (Inr (\<not> fst (consistent pts ?c h4)), snd (consistent pts ?c h4))"
    unfolding check_interval_conflicts_copy ac r by simp
  from copy_frame [OF assms(1)]
  have 1: "separate (snd (copy s h)) ?c s" and 2: "unchanged h (snd (copy s h)) s"
    by simp_all
  from add_constraint_frame [OF 1, of u v "(mn, mx)"]
  have 3: "separate ?h4 ?c s" and 4: "unchanged (snd (copy s h)) ?h4 s" by simp_all
  have 5: "unchanged ?h4 ?h5 s" by (rule consistent_frame [OF 3])
  have "unchanged h ?h5 s"
    by (rule unchanged_trans [OF unchanged_trans [OF 2 4] 5])
  then have "unchanged h (snd (check_interval_conflicts pts s u v mn mx h)) s"
    unfolding res h4 by simp
  moreover have "fst (check_interval_conflicts pts s u v mn mx h) = Inr (\<not> fst (consistent pts ?c ?h4))"
    unfolding res h4 by simp
  ultimately show ?thesis
    using unchanged_points_of unchanged_get_intervals unchanged_consistent by blast
qed

theorem copy_independent_witness:
  "valid_stn stn_ab 0 \<and>
   points_of (mutations (fst (copy 0 stn_ab))
      [Add_constraint ''b'' ''c'' (5, 5), Add_time_point ''z'', Add_constraint ''a'' ''c'' (3, 1)]
      (snd (copy 0 stn_ab))) 0 = points_of stn_ab 0 \<and>
   get_intervals 0 (mutations (fst (copy 0 stn_ab))
      [Add_constraint ''b'' ''c'' (5, 5), Add_time_point ''z'', Add_constraint ''a'' ''c'' (3, 1)]
      (snd (copy 0 stn_ab))) = get_intervals 0 stn_ab \<and>
   fst (consistent [''a'', ''b''] 0 (mutations (fst (copy 0 stn_ab))
      [Add_constraint ''b'' ''c'' (5, 5), Add_time_point ''z'', Add_constraint ''a'' ''c'' (3, 1)]
      (snd (copy 0 stn_ab)))) = fst (consistent [''a'', ''b''] 0 stn_ab)"
  by (rule conjI [OF valid_stn_ab copy_independent [OF valid_stn_ab]])

theorem check_interval_conflicts_pure_witness:
  "valid_stn stn_ab 0 \<and> (0::rat) \<le> 5 \<and>
   fst (check_interval_conflicts [''a'', ''b''] 0 ''b'' ''a'' 0 5 stn_ab) =
     Inr (\<not> fst (consistent [''a'', ''b''] (fst (copy 0 stn_ab))
            (snd (add_constraint (fst (copy 0 stn_ab)) ''b'' ''a'' (0, 5) (snd (copy 0 stn_ab)))))) \<and>
   points_of (snd (check_interval_conflicts [''a'', ''b''] 0 ''b'' ''a'' 0 5 stn_ab)) 0
     = points_of stn_ab 0 \<and>
   get_intervals 0 (snd (check_interval_conflicts [''a'', ''b''] 0 ''b'' ''a'' 0 5 stn_ab))
     = get_intervals 0 stn_ab \<and>
   fst (consistent [''b'', ''a''] 0
         (snd (check_interval_conflicts [''a'', ''b''] 0 ''b'' ''a'' 0 5 stn_ab)))
     = fst (consistent [''b'', ''a''] 0 stn_ab)"
proof -
  have le: "(0::rat) \<le> 5" by simp
  show ?thesis
    by (rule conjI [OF valid_stn_ab conjI [OF le check_interval_conflicts_pure [OF valid_stn_ab le]]])
qed

subsection \<open>Floyd--Warshall detects negative cycles\<close>

text \<open>
  The loops of \<^verbatim>\<open>_build_distance_matrix\<close> update the matrix in place. Two properties of
  the matrix survive every update: each finite entry is the weight of a walk in the
  constraint graph (\<open>sound\<close>), and after the rounds for the points of \<open>K\<close> each entry is
  at most the weight of every simple path whose inner points lie in \<open>K\<close> (\<open>complete\<close>).
  It follows that some diagonal entry is negative at the end exactly when the graph has
  a closed walk of negative weight, whatever the order of enumeration.
\<close>

instance dist :: ordered_comm_monoid_add
proof
  fix a b c :: dist
  show "a \<le> b \<Longrightarrow> c + a \<le> c + b" by (cases a; cases b; cases c) auto
qed

lemma dist_le_Inf [simp]: "(x::dist) \<le> Inf"
  by (cases x) auto


























subsection \<open>The cached verdict\<close>











































section \<open>ISO 8601 durations (\<^verbatim>\<open>temporal/utils.py\<close>)\<close>

subsection \<open>Digits and decimal numerals\<close>

text \<open>
  A \<open>char\<close> is one of 256 characters, of which \<^verbatim>\<open>\d\<close> matches \<^verbatim>\<open>0\<close> to \<^verbatim>\<open>9\<close> and no other.
\<close>

definition is_digit :: "char \<Rightarrow> bool" where
  "is_digit c = (48 \<le> (of_char c :: nat) \<and> (of_char c :: nat) \<le> 57)"

definition digit_val :: "char \<Rightarrow> nat" where
  "digit_val c = of_char c - 48"

definition digit_char :: "nat \<Rightarrow> char" where
  "digit_char n = char_of (48 + n)"

text \<open>\<^verbatim>\<open>int(s)\<close> for a string of decimal digits.\<close>

definition digits_val :: "string \<Rightarrow> nat" where
  "digits_val s = foldl (\<lambda>acc c. 10 * acc + digit_val c) 0 s"

text \<open>\<^verbatim>\<open>str(n)\<close> for a natural number.\<close>

function str_nat :: "nat \<Rightarrow> string" where
  "str_nat n = (if n < 10 then [digit_char n] else str_nat (n div 10) @ [digit_char (n mod 10)])"
  by pat_completeness auto
termination
  by (relation "measure id") auto

declare str_nat.simps [simp del]

definition str_int :: "int \<Rightarrow> string" where
  "str_int n = (if n < 0 then CHR ''-'' # str_nat (nat (- n)) else str_nat (nat n))"

subsection \<open>The regular expression of \<^verbatim>\<open>parse_iso8601_duration\<close>\<close>

text \<open>
  The pattern
  \<^verbatim>\<open>(?:(\d+(?:\.\d+)?)H)?(?:(\d+(?:\.\d+)?)M)?(?:(\d+(?:\.\d+)?)S)?\<close>
  is built from \<^verbatim>\<open>\d+\<close> (\<open>Digits\<close>), literal characters, sequencing, the greedy \<^verbatim>\<open>?\<close>
  (\<open>Opt\<close>) and numbered capturing groups. \<open>rx_match\<close> is a backtracking matcher in
  continuation-passing style: a greedy operator first tries to match, and falls back to
  the shorter alternative when the rest of the pattern (the continuation \<open>k\<close>) fails.
  \<^verbatim>\<open>re.match\<close> anchors the match at the start of the string and not at its end.
\<close>

datatype rx = Digits | Lit char | Seq rx rx | Opt rx | Group nat rx

type_synonym groups = "nat \<Rightarrow> string option"

fun many1 :: "string \<Rightarrow> (string \<Rightarrow> 'a option) \<Rightarrow> 'a option" where
  "many1 [] k = None"
| "many1 (c # cs) k =
     (if is_digit c then (case many1 cs k of Some r \<Rightarrow> Some r | None \<Rightarrow> k cs) else None)"

primrec rx_match ::
  "rx \<Rightarrow> string \<Rightarrow> groups \<Rightarrow> (string \<Rightarrow> groups \<Rightarrow> 'a option) \<Rightarrow> 'a option" where
  "rx_match Digits = (\<lambda>s g k. many1 s (\<lambda>s'. k s' g))"
| "rx_match (Lit c) = (\<lambda>s g k. case s of [] \<Rightarrow> None | x # xs \<Rightarrow> if x = c then k xs g else None)"
| "rx_match (Seq a b) = (\<lambda>s g k. rx_match a s g (\<lambda>s' g'. rx_match b s' g' k))"
| "rx_match (Opt a) = (\<lambda>s g k. case rx_match a s g k of Some r \<Rightarrow> Some r | None \<Rightarrow> k s g)"
| "rx_match (Group n a) =
     (\<lambda>s g k. rx_match a s g (\<lambda>s' g'. k s' (g'(n := Some (take (length s - length s') s)))))"

definition re_match :: "rx \<Rightarrow> string \<Rightarrow> groups option" where
  "re_match r s = rx_match r s (\<lambda>_. None) (\<lambda>s' g. Some g)"

definition number_rx :: rx where
  "number_rx = Seq Digits (Opt (Seq (Lit CHR ''.'') Digits))"

definition component_rx :: "nat \<Rightarrow> char \<Rightarrow> rx" where
  "component_rx n c = Opt (Seq (Group n number_rx) (Lit c))"

definition duration_pattern :: rx where
  "duration_pattern =
     Seq (component_rx 1 CHR ''H'') (Seq (component_rx 2 CHR ''M'') (component_rx 3 CHR ''S''))"

text \<open>
  \<^verbatim>\<open>float(s)\<close> for a text that \<^verbatim>\<open>\d+(?:\.\d+)?\<close> matched: the digits before the dot and,
  when there is a dot, the digits after it.
\<close>

definition float_str :: "string \<Rightarrow> rat" where
  "float_str s =
     (let ip = takeWhile is_digit s; rest = dropWhile is_digit s
      in of_nat (digits_val ip) +
         (case rest of [] \<Rightarrow> 0 | _ # fp \<Rightarrow> of_nat (digits_val fp) / 10 ^ length fp))"

text \<open>\<^verbatim>\<open>float(match.group(n) or 0)\<close>.\<close>

definition group_or_0 :: "string option \<Rightarrow> rat" where
  "group_or_0 g = (case g of None \<Rightarrow> 0 | Some s \<Rightarrow> float_str s)"

definition parse_iso8601_duration :: "string \<Rightarrow> rat option" where
  "parse_iso8601_duration duration_str =
     (if duration_str = [] then None
      else if take 2 duration_str \<noteq> ''PT'' then None
      else
        (case re_match duration_pattern (drop 2 duration_str) of
           None \<Rightarrow> None
         | Some g \<Rightarrow>
            (let hours = group_or_0 (g 1);
                 minutes = group_or_0 (g 2);
                 seconds = group_or_0 (g 3)
             in Some (hours * 3600 + minutes * 60 + seconds))))"

subsection \<open>\<^verbatim>\<open>format_iso8601_duration\<close>\<close>

text \<open>Rounding to the nearest integer, ties to the even one.\<close>

definition round_half_even :: "rat \<Rightarrow> int" where
  "round_half_even x =
     (let f = \<lfloor>x\<rfloor>; r = x - of_int f
      in if r < 1/2 then f else if r > 1/2 then f + 1 else if even f then f else f + 1)"

definition rstrip :: "char \<Rightarrow> string \<Rightarrow> string" where
  "rstrip c s = rev (dropWhile (\<lambda>x. x = c) (rev s))"

text \<open>\<^verbatim>\<open>f"{x:.6f}"\<close> for \<open>x \<ge> 0\<close>.\<close>

definition format_6f :: "rat \<Rightarrow> string" where
  "format_6f x =
     (let u = nat (round_half_even (x * 1000000));
          frac = str_nat (u mod 1000000)
      in str_nat (u div 1000000) @ ''.'' @ replicate (6 - length frac) CHR ''0'' @ frac)"

text \<open>
  \<^verbatim>\<open>seconds // 3600\<close> is \<open>\<lfloor>seconds / 3600\<rfloor>\<close> and \<^verbatim>\<open>seconds % 3600\<close> is what is left.
\<close>

definition format_iso8601_duration :: "rat \<Rightarrow> string" where
  "format_iso8601_duration seconds0 =
     (let seconds = (if seconds0 < 0 then 0 else seconds0);
          hours = \<lfloor>seconds / 3600\<rfloor>;
          remaining = seconds - 3600 * of_int \<lfloor>seconds / 3600\<rfloor>;
          minutes = \<lfloor>remaining / 60\<rfloor>;
          secs = remaining - 60 * of_int \<lfloor>remaining / 60\<rfloor>;
          parts = (if hours > 0 then [str_int hours @ ''H''] else []) @
                  (if minutes > 0 then [str_int minutes @ ''M''] else []) @
                  (if secs > 0 \<or> (hours = 0 \<and> minutes = 0)
                   then (if secs = of_int \<lfloor>secs\<rfloor> then [str_int \<lfloor>secs\<rfloor> @ ''S'']
                         else [rstrip CHR ''.'' (rstrip CHR ''0'' (format_6f secs)) @ ''S''])
                   else [])
      in if parts \<noteq> [] then ''PT'' @ concat parts else ''PT0S'')"


subsection \<open>Properties of the parser and the formatter\<close>




























subsection \<open>What the formatter writes\<close>
























lemma opt_succeeds: "k s g \<noteq> None \<Longrightarrow> rx_match (Opt a) s g k \<noteq> None"
  by (simp split: option.splits)

lemma pattern_always_matches: "re_match duration_pattern s \<noteq> None"
proof -
  have 3: "rx_match (component_rx 3 CHR ''S'') s' g (\<lambda>s g. Some g) \<noteq> None" for s' g
    unfolding component_rx_def by (rule opt_succeeds) simp
  have 2: "rx_match (component_rx 2 CHR ''M'') s' g
             (\<lambda>s g. rx_match (component_rx 3 CHR ''S'') s g (\<lambda>s g. Some g)) \<noteq> None" for s' g
    unfolding component_rx_def [of 2] by (rule opt_succeeds) (rule 3)
  have "rx_match (component_rx 1 CHR ''H'') s (\<lambda>_. None)
             (\<lambda>s g. rx_match (component_rx 2 CHR ''M'') s g
                (\<lambda>s g. rx_match (component_rx 3 CHR ''S'') s g (\<lambda>s g. Some g))) \<noteq> None"
    unfolding component_rx_def [of 1] by (rule opt_succeeds) (rule 2)
  then show ?thesis by (simp add: re_match_def duration_pattern_def)
qed

lemma parse_without_PT: "take 2 s \<noteq> ''PT'' \<Longrightarrow> parse_iso8601_duration s = None"
  by (simp add: parse_iso8601_duration_def)

lemma parse_with_PT: "parse_iso8601_duration (''PT'' @ s) \<noteq> None"
  using pattern_always_matches [of s]
  by (auto simp: parse_iso8601_duration_def Let_def split: option.splits)

text \<open>
  C2. A string that does not begin with \<^verbatim>\<open>PT\<close> is rejected (\<open>parse_without_PT\<close>). A
  string that begins with \<^verbatim>\<open>PT\<close> is never rejected (\<open>parse_with_PT\<close>): every part of
  the pattern is optional, so \<^verbatim>\<open>re.match\<close> always finds a match, and for \<^verbatim>\<open>PT\<close> and
  \<^verbatim>\<open>PTxyz\<close>, which have no H, M or S component, the function returns 0 seconds.
\<close>

theorem parse_PT_without_component:
  "parse_iso8601_duration ''PT'' = Some 0 \<and> parse_iso8601_duration ''PTxyz'' = Some 0"
  by (simp add: parse_iso8601_duration_def re_match_def duration_pattern_def component_rx_def
      number_rx_def group_or_0_def is_digit_def)

section \<open>Instants and \<^verbatim>\<open>TemporalMetadata\<close>\<close>

subsection \<open>Python's \<^verbatim>\<open>datetime\<close> and \<^verbatim>\<open>timedelta\<close>\<close>

text \<open>
  The standard library's \<^verbatim>\<open>datetime\<close> is modelled by what its arithmetic depends on: the
  number of microseconds from 0001-01-01T00:00:00 to the date and time fields (\<open>wall\<close>),
  and the UTC offset in microseconds, absent for a naive value. The fields range from
  0001-01-01T00:00:00 to 9999-12-31T23:59:59.999999, and an offset is strictly between
  minus and plus 24 hours.
\<close>

record datetime =
  wall :: int
  tzinfo :: "int option"

definition max_wall :: int where
  "max_wall = 315537897599999999"

definition valid_offset :: "int \<Rightarrow> bool" where
  "valid_offset off = (- 86400000000 < off \<and> off < 86400000000)"

definition valid_datetime :: "datetime \<Rightarrow> bool" where
  "valid_datetime d =
     (0 \<le> wall d \<and> wall d \<le> max_wall \<and>
      (case tzinfo d of None \<Rightarrow> True | Some off \<Rightarrow> valid_offset off))"





subsection \<open>ISO 8601 instants\<close>

text \<open>
  \<^verbatim>\<open>datetime.fromisoformat\<close> and \<^verbatim>\<open>isoformat\<close> belong to the standard library. A string is
  represented by what \<^verbatim>\<open>parse_iso8601_datetime\<close> makes of it: \<open>Iso d\<close> stands for a string
  that denotes the value \<open>d\<close>, \<open>Not_iso\<close> for a string that \<^verbatim>\<open>fromisoformat\<close> rejects.
  No string denotes a value outside the range of \<^verbatim>\<open>datetime\<close>.
\<close>

datatype iso_text = Iso datetime | Not_iso

definition parse_iso8601_datetime :: "iso_text \<Rightarrow> datetime option" where
  "parse_iso8601_datetime datetime_str =
     (case datetime_str of
        Iso d \<Rightarrow> if valid_datetime d then Some d else None
      | Not_iso \<Rightarrow> None)"

text \<open>
  \<^verbatim>\<open>format_iso8601_datetime\<close> gives a naive value the offset of the local zone, which is
  the parameter \<open>local\<close>, and writes it with \<^verbatim>\<open>isoformat\<close>. It then replaces \<^verbatim>\<open>+00:00\<close>
  by \<^verbatim>\<open>Z\<close>, which \<^verbatim>\<open>parse_iso8601_datetime\<close> undoes before it parses, so that the text
  still denotes the same value.
\<close>

definition format_iso8601_datetime :: "int \<Rightarrow> datetime \<Rightarrow> iso_text" where
  "format_iso8601_datetime local dt =
     Iso (case tzinfo dt of None \<Rightarrow> dt\<lparr>tzinfo := Some local\<rparr> | Some _ \<Rightarrow> dt)"

datatype datetime_arg = Dt_obj datetime | Dt_str iso_text | Dt_other

datatype duration_arg = Dur_num rat | Dur_str string | Dur_other



subsection \<open>\<^verbatim>\<open>TemporalMetadata\<close>\<close>

record TemporalMetadata =
  duration :: "string option"
  start_time :: "iso_text option"
  end_time :: "iso_text option"

definition set_duration :: "duration_arg \<Rightarrow> TemporalMetadata \<Rightarrow> exn + TemporalMetadata" where
  "set_duration d self =
     (case d of
        Dur_num x \<Rightarrow> Inr (self\<lparr>duration := Some (format_iso8601_duration x)\<rparr>)
      | Dur_str s \<Rightarrow>
          if parse_iso8601_duration s \<noteq> None then Inr (self\<lparr>duration := Some s\<rparr>)
          else Inl ValueError
      | Dur_other \<Rightarrow> Inl TypeError)"

definition set_start_time :: "int \<Rightarrow> datetime_arg \<Rightarrow> TemporalMetadata \<Rightarrow> exn + TemporalMetadata" where
  "set_start_time local t self =
     (case t of
        Dt_obj d \<Rightarrow> Inr (self\<lparr>start_time := Some (format_iso8601_datetime local d)\<rparr>)
      | Dt_str s \<Rightarrow>
          if parse_iso8601_datetime s \<noteq> None then Inr (self\<lparr>start_time := Some s\<rparr>)
          else Inl ValueError
      | Dt_other \<Rightarrow> Inl TypeError)"

definition set_end_time :: "int \<Rightarrow> datetime_arg \<Rightarrow> TemporalMetadata \<Rightarrow> exn + TemporalMetadata" where
  "set_end_time local t self =
     (case t of
        Dt_obj d \<Rightarrow> Inr (self\<lparr>end_time := Some (format_iso8601_datetime local d)\<rparr>)
      | Dt_str s \<Rightarrow>
          if parse_iso8601_datetime s \<noteq> None then Inr (self\<lparr>end_time := Some s\<rparr>)
          else Inl ValueError
      | Dt_other \<Rightarrow> Inl TypeError)"





subsection \<open>Properties of \<^verbatim>\<open>TemporalMetadata\<close>\<close>

text \<open>What the validating setters guarantee of the fields they have set.\<close>

definition valid_tm :: "TemporalMetadata \<Rightarrow> bool" where
  "valid_tm tm =
     ((\<forall>d. duration tm = Some d \<longrightarrow> parse_iso8601_duration d \<noteq> None) \<and>
      (\<forall>s. start_time tm = Some s \<longrightarrow> parse_iso8601_datetime s \<noteq> None) \<and>
      (\<forall>e. end_time tm = Some e \<longrightarrow> parse_iso8601_datetime e \<noteq> None))"


lemma format_begins_PT: "\<exists>rest. format_iso8601_duration x = ''PT'' @ rest"
  by (simp add: format_iso8601_duration_def Let_def)

lemma parse_format_accepted: "\<exists>y. parse_iso8601_duration (format_iso8601_duration x) = Some y"
  using format_begins_PT [of x] parse_with_PT by (metis not_None_eq)

lemma parse_format_datetime:
  "valid_datetime d \<Longrightarrow> valid_offset local \<Longrightarrow>
   \<exists>y. parse_iso8601_datetime (format_iso8601_datetime local d) = Some y"
  by (auto simp: parse_iso8601_datetime_def format_iso8601_datetime_def valid_datetime_def
      split: option.splits)

lemma valid_tm_empty: "valid_tm \<lparr>duration = None, start_time = None, end_time = None\<rparr>"
  by (simp add: valid_tm_def)

lemma valid_tm_set_duration:
  "valid_tm tm \<Longrightarrow> set_duration d tm = Inr tm' \<Longrightarrow> valid_tm tm' \<and> duration tm' \<noteq> None"
  by (auto simp: set_duration_def valid_tm_def parse_format_accepted
      split: duration_arg.splits if_splits)

lemma valid_tm_set_start_time:
  assumes "valid_tm tm" "set_start_time local t tm = Inr tm'"
    and "\<And>d. t = Dt_obj d \<Longrightarrow> valid_datetime d \<and> valid_offset local"
  shows "valid_tm tm' \<and> start_time tm' \<noteq> None"
  using assms
  by (auto simp: set_start_time_def valid_tm_def parse_format_datetime
      split: datetime_arg.splits if_splits)

lemma valid_tm_set_end_time:
  assumes "valid_tm tm" "set_end_time local t tm = Inr tm'"
    and "\<And>d. t = Dt_obj d \<Longrightarrow> valid_datetime d \<and> valid_offset local"
  shows "valid_tm tm' \<and> end_time tm' \<noteq> None"
  using assms
  by (auto simp: set_end_time_def valid_tm_def parse_format_datetime
      split: datetime_arg.splits if_splits)



















section \<open>The action registry (\<^verbatim>\<open>actions.py\<close>)\<close>

text \<open>
  A Python object handed to the registry as an action: a function, which has a
  \<^verbatim>\<open>__name__\<close>; another callable object, which may have none; or an object that is not
  callable. The dictionaries of the registry are finite maps.
\<close>

datatype py_object = Function string | Callable_object | Other_object

record Actions =
  action_dict :: "(string, py_object) fmap"
  action_prob :: "(string, rat list) fmap"
  action_cost :: "(string, rat) fmap"
  action_temporal_dict :: "(string, TemporalMetadata) fmap"

definition Actions_new :: Actions where
  "Actions_new =
     \<lparr>action_dict = fmempty, action_prob = fmempty, action_cost = fmempty,
      action_temporal_dict = fmempty\<rparr>"
















definition get_temporal_metadata :: "string \<Rightarrow> Actions \<Rightarrow> TemporalMetadata option" where
  "get_temporal_metadata action_name self = fmlookup (action_temporal_dict self) action_name"

definition has_temporal_info :: "string \<Rightarrow> Actions \<Rightarrow> bool" where
  "has_temporal_info action_name self = (action_name |\<in>| fmdom (action_temporal_dict self))"

subsection \<open>The key sets of the registry\<close>

definition same_keys :: "Actions \<Rightarrow> bool" where
  "same_keys a =
     (fmdom (action_prob a) = fmdom (action_dict a) \<and>
      fmdom (action_cost a) = fmdom (action_dict a))"


lemma same_keys_new: "same_keys Actions_new"
  by (simp add: same_keys_def Actions_new_def)



















end
